theory Spec2Isabelle
  imports Main "HOL-Library.Word"
begin

section \<open>JavaScript values\<close>

text \<open>
  A JavaScript string is a sequence of UTF-16 code units and \<open>.length\<close> counts them, so a
  string is a list of 16-bit words and \<open>length\<close> is \<open>.length\<close>. \<open>js\<close> embeds an ASCII
  literal. A \<open>Date\<close> is its time value, an integer number of milliseconds.
\<close>

type_synonym js_string = "16 word list"

definition js :: "string \<Rightarrow> js_string" where
  "js s = map of_char s"

type_synonym js_date = int

text \<open>The values handed to \<open>JSON.stringify\<close>: arrays of strings and objects of strings.\<close>

datatype json = JString js_string | JArray "json list" | JObject "(string \<times> json) list"

section \<open>Data model\<close>

text \<open>
  The interfaces of the five components, field by field. Where two interfaces of the source
  use the same field name, the record declared later here carries a prime
  (\<open>name'\<close> of \<open>Service\<close>, \<open>location'\<close> of \<open>BookingFormData\<close>, \<open>timeZone'\<close> of the app
  context, \<open>date'\<close>, \<open>start_time'\<close> and \<open>end_time'\<close> of the request payload).
\<close>

record CustomerInfo =
  name :: js_string
  phone :: js_string
  email :: js_string

text \<open>\<open>duration\<close> and \<open>price\<close> of a service are only displayed and are left out.\<close>

record Service =
  name' :: js_string
  service_name :: js_string
  description :: "js_string option"

record ServicesSelectionData =
  selectedServices :: "js_string list"

record CustomerLocationData =
  location :: js_string
  street :: js_string
  building :: js_string
  apartment :: "js_string option"

datatype location_type = Our_location | Customer_location

record MeetingLocationData =
  locationType :: location_type
  ourLocation :: "js_string option"
  customerLocation :: "CustomerLocationData option"

record DateTimeSelectionData =
  date :: js_date
  startTime :: js_string
  endTime :: js_string
  timeZone :: js_string

record BookingFormData =
  customerInfo :: "CustomerInfo option"
  services :: "ServicesSelectionData option"
  location' :: "MeetingLocationData option"
  dateTime :: "DateTimeSelectionData option"

record slot =
  start_time :: js_string
  end_time :: js_string

text \<open>The part of the app context (\<open>useAppContext\<close>) the wizard reads and writes.\<close>

record AppContext =
  timeZone' :: js_string
  selectedDate :: js_date
  selectedSlot :: "slot option"

text \<open>The object \<open>meetingData\<close> that \<open>submitBooking\<close> posts; \<open>None\<close> is \<open>undefined\<close>.\<close>

record meetingData =
  duration_id :: js_string
  date' :: js_string
  user_timezone_offset :: js_string
  start_time' :: js_string
  end_time' :: js_string
  user_name :: js_string
  user_email :: js_string
  customer_phone :: js_string
  selected_services :: js_string
  location_type :: location_type
  our_location :: "js_string option"
  customer_location :: "js_string option"

text \<open>The \<open>message\<close> of a successful booking response, as \<open>SuccessAlert\<close> reads it.\<close>

record booking_result =
  meeting_provider :: js_string
  meet_link :: js_string
  reschedule_url :: js_string
  google_calendar_event_url :: js_string

text \<open>The \<open>message\<close> of a time-slot response.\<close>

record time_slots =
  all_available_slots_for_data :: "slot list"
  valid_start_date :: "js_string option"
  valid_end_date :: "js_string option"
  available_days :: "js_string list"

text \<open>The parameters of one \<open>get_time_slots\<close> request: duration id, date, timezone offset.\<close>

type_synonym slots_request = "js_string \<times> js_string \<times> js_string"

section \<open>What the components are given\<close>

text \<open>
  The props of \<open>MultiStepBooking\<close> and the functions the source imports but does not define:
  the helpers of \<open>@/lib/utils\<close>, the built-ins \<open>String\<close>, \<open>Intl.DateTimeFormat\<close> and
  \<open>JSON.stringify\<close>, and the grammar behind zod's \<open>.email()\<close>. They are parameters: every
  theorem below holds for whatever they compute. \<open>'e\<close> is the type of the error object a
  rejected post call hands to \<open>catch\<close>.
\<close>

record 'e env =
  durationId :: js_string
  isMobileView :: bool
  getTimeZoneOffsetFromTimeZoneString :: "js_string \<Rightarrow> int"
  String_of :: "int \<Rightarrow> js_string"
  format_en_CA :: "js_date \<Rightarrow> js_string"
  JSON_stringify :: "json \<Rightarrow> js_string"
  parseFrappeErrorMsg :: "'e \<Rightarrow> js_string option"
  email_grammar :: "js_string \<Rightarrow> bool"

section \<open>Validation schemas\<close>

text \<open>
  A zod issue is the path of the field and the message of the failed check.
  \<open>z.string().min(n, msg)\<close> fails when the string has fewer than \<open>n\<close> code units,
  \<open>z.string().email(msg)\<close> when it is outside the email grammar. An object schema checks its
  fields in the order of the shape. Every field here has one check, so the resolver's
  "first error of a field" is the field's only issue.
\<close>

type_synonym issue = "string \<times> js_string"

definition z_min :: "nat \<Rightarrow> js_string \<Rightarrow> string \<Rightarrow> js_string \<Rightarrow> issue list" where
  "z_min n msg path v = (if length v < n then [(path, msg)] else [])"

definition z_email :: "'e env \<Rightarrow> js_string \<Rightarrow> string \<Rightarrow> js_string \<Rightarrow> issue list" where
  "z_email X msg path v = (if email_grammar X v then [] else [(path, msg)])"

definition customerInfoSchema :: "'e env \<Rightarrow> CustomerInfo \<Rightarrow> issue list" where
  "customerInfoSchema X v =
     z_min 2 (js ''Name must be at least 2 characters'') ''name'' (name v) @
     z_min 10 (js ''Phone number must be at least 10 digits'') ''phone'' (phone v) @
     z_email X (js ''Please enter a valid email address'') ''email'' (email v)"

text \<open>\<open>apartment\<close> is \<open>z.string().optional()\<close>: any string and \<open>undefined\<close> pass.\<close>

definition customerLocationSchema :: "CustomerLocationData \<Rightarrow> issue list" where
  "customerLocationSchema v =
     z_min 3 (js ''Location is required'') ''location'' (location v) @
     z_min 3 (js ''Street name is required'') ''street'' (street v) @
     z_min 1 (js ''Building name and number are required'') ''building'' (building v)"

section \<open>The wizard's state\<close>

datatype step = Step1 | Step2 | Step3 | Step4

fun step_no :: "step \<Rightarrow> nat" where
  "step_no Step1 = 1"
| "step_no Step2 = 2"
| "step_no Step3 = 3"
| "step_no Step4 = 4"

text \<open>
  The step component that is mounted, with its local state. \<open>MultiStepBooking\<close> renders
  exactly the component of \<open>currentStep\<close>, so the local state of a step exists only while the
  step is shown and is initialised from \<open>initialData\<close> each time the step is mounted:
  \<^item> \<open>CustomerInfoForm\<close>: the form values and the errors of the last submit;
  \<^item> \<open>ServicesSelection\<close>: \<open>selectedServices\<close> and the \<open>services\<close> the catalog call returned;
  \<^item> \<open>MeetingLocation\<close>: \<open>locationType\<close>, the form values and the errors of the last submit;
  \<^item> \<open>DateTimeSelection\<close>: \<open>data\<close> and \<open>isLoading\<close> of the time-slot call.
\<close>

datatype child =
    CustomerInfoForm CustomerInfo "issue list"
  | ServicesSelection "js_string list" "Service list"
  | MeetingLocation location_type CustomerLocationData "issue list"
  | DateTimeSelection "time_slots option" bool

text \<open>
  The state of \<open>MultiStepBooking\<close> (\<open>timeFormat\<close> only formats the slot labels and is left
  out), the app context, \<open>loading\<close> of the post-call hook, the mounted step, and what the
  wizard has done to the outside: the payloads posted with \<open>bookAppointment\<close>, in order, and
  the messages of the toasts shown. \<open>inFlight\<close> counts the posts not yet answered.
\<close>

record wizard =
  currentStep :: step
  formData :: BookingFormData
  displayMonth :: js_date
  expanded :: bool
  bookingResponse :: "booking_result option"
  appointmentScheduled :: bool
  app :: AppContext
  loading :: bool
  inFlight :: nat
  child :: child
  calls :: "meetingData list"
  toasts :: "js_string list"

section \<open>Mounting a step\<close>

text \<open>The company address, a constant of \<open>MeetingLocation\<close>; its seventh character is U+2013.\<close>

definition ourLocation_const :: js_string where
  "ourLocation_const =
     js ''Ebkar '' @ [0x2013] @ js '' Technology & Management Solutions, Dubai, UAE''"

text \<open>\<open>x || ""\<close> for a string or \<open>undefined\<close>.\<close>

definition or_empty :: "js_string option \<Rightarrow> js_string" where
  "or_empty x = (case x of None \<Rightarrow> [] | Some v \<Rightarrow> v)"

text \<open>
  The initial local state of a step, from the \<open>initialData\<close> prop that \<open>MultiStepBooking\<close>
  passes: \<open>formData.customerInfo\<close>, \<open>formData.services\<close>, \<open>formData.location\<close>; the
  date-time step gets none. The time-slot call of a freshly mounted date-time step has no
  data yet.
\<close>

fun mount :: "step \<Rightarrow> BookingFormData \<Rightarrow> child" where
  "mount Step1 fd =
     CustomerInfoForm
       \<lparr>name = or_empty (map_option name (customerInfo fd)),
        phone = or_empty (map_option phone (customerInfo fd)),
        email = or_empty (map_option email (customerInfo fd))\<rparr> []"
| "mount Step2 fd =
     ServicesSelection
       (case services fd of None \<Rightarrow> [] | Some d \<Rightarrow> selectedServices d) []"
| "mount Step3 fd =
     (let cl = Option.bind (location' fd) customerLocation in
      MeetingLocation
        (case location' fd of None \<Rightarrow> Our_location | Some l \<Rightarrow> locationType l)
        \<lparr>location = or_empty (map_option location cl),
         street = or_empty (map_option street cl),
         building = or_empty (map_option building cl),
         apartment = Some (or_empty (Option.bind cl apartment))\<rparr> [])"
| "mount Step4 fd = DateTimeSelection None True"

section \<open>The handlers of \<open>MultiStepBooking\<close>\<close>

definition handleCustomerInfoNext :: "CustomerInfo \<Rightarrow> wizard \<Rightarrow> wizard" where
  "handleCustomerInfoNext data s =
     s\<lparr>formData := (formData s)\<lparr>customerInfo := Some data\<rparr>, currentStep := Step2\<rparr>"

definition handleServicesNext :: "ServicesSelectionData \<Rightarrow> wizard \<Rightarrow> wizard" where
  "handleServicesNext data s =
     s\<lparr>formData := (formData s)\<lparr>services := Some data\<rparr>, currentStep := Step3\<rparr>"

definition handleLocationNext :: "MeetingLocationData \<Rightarrow> wizard \<Rightarrow> wizard" where
  "handleLocationNext data s =
     s\<lparr>formData := (formData s)\<lparr>location' := Some data\<rparr>, currentStep := Step4\<rparr>"

definition toast :: "js_string \<Rightarrow> wizard \<Rightarrow> wizard" where
  "toast msg s = s\<lparr>toasts := toasts s @ [msg]\<rparr>"

text \<open>
  \<open>bookAppointment\<close> is \<open>call\<close> of \<open>useFrappePostCall\<close>: it posts the payload, and the hook's
  \<open>loading\<close> is true from the call until its answer.
\<close>

definition bookAppointment :: "meetingData \<Rightarrow> wizard \<Rightarrow> wizard" where
  "bookAppointment p s =
     s\<lparr>calls := calls s @ [p], loading := True, inFlight := Suc (inFlight s)\<rparr>"

text \<open>
  The object that \<open>JSON.stringify\<close> is given for a customer location: the keys of the
  schema in order, a key whose value is \<open>undefined\<close> left out.
\<close>

definition json_of_customerLocation :: "CustomerLocationData \<Rightarrow> json" where
  "json_of_customerLocation v =
     JObject ([(''location'', JString (location v)),
               (''street'', JString (street v)),
               (''building'', JString (building v))] @
              (case apartment v of None \<Rightarrow> [] | Some a \<Rightarrow> [(''apartment'', JString a)]))"

definition composeMeetingData ::
  "'e env \<Rightarrow> CustomerInfo \<Rightarrow> ServicesSelectionData \<Rightarrow> MeetingLocationData \<Rightarrow>
   DateTimeSelectionData \<Rightarrow> meetingData" where
  "composeMeetingData X ci sv loc dt =
     \<lparr>duration_id = durationId X,
      date' = format_en_CA X (date dt),
      user_timezone_offset =
        String_of X (getTimeZoneOffsetFromTimeZoneString X (timeZone dt)),
      start_time' = startTime dt,
      end_time' = endTime dt,
      user_name = name ci,
      user_email = email ci,
      customer_phone = phone ci,
      selected_services = JSON_stringify X (JArray (map JString (selectedServices sv))),
      location_type = locationType loc,
      our_location =
        (if locationType loc = Our_location then ourLocation loc else None),
      customer_location =
        (if locationType loc = Customer_location
         then map_option (\<lambda>v. JSON_stringify X (json_of_customerLocation v))
                (customerLocation loc)
         else None)\<rparr>"

definition submitBooking :: "'e env \<Rightarrow> BookingFormData \<Rightarrow> wizard \<Rightarrow> wizard" where
  "submitBooking X completeData s =
     (case customerInfo completeData of
        None \<Rightarrow> toast (js ''Missing required information'') s
      | Some ci \<Rightarrow>
     (case services completeData of
        None \<Rightarrow> toast (js ''Missing required information'') s
      | Some sv \<Rightarrow>
     (case location' completeData of
        None \<Rightarrow> toast (js ''Missing required information'') s
      | Some loc \<Rightarrow>
     (case dateTime completeData of
        None \<Rightarrow> toast (js ''Missing required information'') s
      | Some dt \<Rightarrow> bookAppointment (composeMeetingData X ci sv loc dt) s))))"

definition handleDateTimeNext :: "'e env \<Rightarrow> DateTimeSelectionData \<Rightarrow> wizard \<Rightarrow> wizard" where
  "handleDateTimeNext X data s =
     submitBooking X ((formData s)\<lparr>dateTime := Some data\<rparr>)
       (s\<lparr>formData := (formData s)\<lparr>dateTime := Some data\<rparr>\<rparr>)"

text \<open>The two continuations of the post call: \<open>then\<close> and \<open>catch\<close>.\<close>

definition bookAppointment_then :: "booking_result \<Rightarrow> wizard \<Rightarrow> wizard" where
  "bookAppointment_then message s =
     s\<lparr>bookingResponse := Some message, appointmentScheduled := True,
       loading := False, inFlight := inFlight s - 1\<rparr>"

definition bookAppointment_catch :: "'e env \<Rightarrow> 'e \<Rightarrow> wizard \<Rightarrow> wizard" where
  "bookAppointment_catch X err s =
     toast (case parseFrappeErrorMsg X err of
              None \<Rightarrow> js ''Something went wrong''
            | Some error \<Rightarrow> if error = [] then js ''Something went wrong'' else error)
       (s\<lparr>loading := False, inFlight := inFlight s - 1\<rparr>)"

text \<open>\<open>SuccessAlert\<close> is rendered, and open, with the booking response.\<close>

definition confirmed :: "wizard \<Rightarrow> bool" where
  "confirmed s =
     ((case selectedSlot (app s) of None \<Rightarrow> False | Some sl \<Rightarrow> start_time sl \<noteq> []) \<and>
      bookingResponse s \<noteq> None \<and> appointmentScheduled s)"

section \<open>The handlers of the step components\<close>

subsection \<open>\<open>CustomerInfoForm\<close>\<close>

text \<open>
  \<open>form.handleSubmit(onSubmit)\<close> with the zod resolver: the callback runs with the parsed
  values when the schema has no issue; otherwise the issues become the form's errors and
  the callback does not run. \<open>onSubmit\<close> is \<open>onNext\<close>, that is \<open>handleCustomerInfoNext\<close>.
\<close>

definition handleSubmit_customerInfo :: "'e env \<Rightarrow> CustomerInfo \<Rightarrow> wizard \<Rightarrow> wizard" where
  "handleSubmit_customerInfo X v s =
     (let errors = customerInfoSchema X v in
      if errors = [] then handleCustomerInfoNext v s
      else s\<lparr>child := CustomerInfoForm v errors\<rparr>)"

subsection \<open>\<open>ServicesSelection\<close>\<close>

definition toggleService :: "js_string \<Rightarrow> js_string list \<Rightarrow> js_string list" where
  "toggleService serviceName prev =
     (if serviceName \<in> set prev then filter (\<lambda>s. s \<noteq> serviceName) prev
      else prev @ [serviceName])"

definition handleNext_services :: "js_string list \<Rightarrow> wizard \<Rightarrow> wizard" where
  "handleNext_services selected s =
     (if length selected > 0
      then handleServicesNext \<lparr>selectedServices = selected\<rparr> s
      else s)"

subsection \<open>\<open>MeetingLocation\<close>\<close>

definition onSubmit_location ::
  "location_type \<Rightarrow> CustomerLocationData \<Rightarrow> wizard \<Rightarrow> wizard" where
  "onSubmit_location locType data s =
     (if locType = Our_location
      then handleLocationNext
             \<lparr>locationType = Our_location, ourLocation = Some ourLocation_const,
              customerLocation = None\<rparr> s
      else handleLocationNext
             \<lparr>locationType = Customer_location, ourLocation = None,
              customerLocation = Some data\<rparr> s)"

definition handleSubmit_location ::
  "location_type \<Rightarrow> CustomerLocationData \<Rightarrow> wizard \<Rightarrow> wizard" where
  "handleSubmit_location locType v s =
     (let errors = customerLocationSchema v in
      if errors = [] then onSubmit_location locType v s
      else s\<lparr>child := MeetingLocation locType v errors\<rparr>)"

definition handleNext_location ::
  "location_type \<Rightarrow> CustomerLocationData \<Rightarrow> wizard \<Rightarrow> wizard" where
  "handleNext_location locType v s =
     (if locType = Our_location
      then handleLocationNext
             \<lparr>locationType = Our_location, ourLocation = Some ourLocation_const,
              customerLocation = None\<rparr> s
      else handleSubmit_location locType v s)"

subsection \<open>\<open>DateTimeSelection\<close>\<close>

text \<open>The parameters of the time-slot call, from the app context.\<close>

definition slots_params :: "'e env \<Rightarrow> AppContext \<Rightarrow> slots_request" where
  "slots_params X c =
     (durationId X,
      format_en_CA X (selectedDate c),
      String_of X (getTimeZoneOffsetFromTimeZoneString X
        (if timeZone' c = [] then js ''Asia/Calcutta'' else timeZone' c)))"

text \<open>
  The slots that have a button: none while the call is loading, else those of
  \<open>data?.message\<close>, none when there is no data.
\<close>

definition visible_slots :: "child \<Rightarrow> slot list" where
  "visible_slots c =
     (case c of
        DateTimeSelection d isLoading \<Rightarrow>
          (if isLoading then []
           else case d of None \<Rightarrow> [] | Some m \<Rightarrow> all_available_slots_for_data m)
      | _ \<Rightarrow> [])"

definition handleSlotSelect :: "'e env \<Rightarrow> slot \<Rightarrow> wizard \<Rightarrow> wizard" where
  "handleSlotSelect X sl s =
     handleDateTimeNext X
       \<lparr>date = selectedDate (app s), startTime = start_time sl, endTime = end_time sl,
        timeZone = timeZone' (app s)\<rparr>
       (s\<lparr>app := (app s)\<lparr>selectedSlot := Some sl\<rparr>\<rparr>)"

definition onDayClick :: "js_date \<Rightarrow> wizard \<Rightarrow> wizard" where
  "onDayClick d s =
     s\<lparr>app := (app s)\<lparr>selectedDate := d,
                       selectedSlot := Some \<lparr>start_time = [], end_time = []\<rparr>\<rparr>,
       displayMonth := d, expanded := True\<rparr>"

subsection \<open>The query hook\<close>

text \<open>
  Modelled from the spec: the hook \<open>useFrappeGetCall\<close> of the package frappe-react-sdk, which
  \<open>ServicesSelection\<close> and \<open>DateTimeSelection\<close> call and which is not among the sources.
  Section 5 of the spec: the query calls are reads triggered on step entry and on input
  change (date or timezone change), and a response that arrives after the user has
  navigated away from the state it was requested for is discarded. So the hook of the
  date-time step starts without data and loading (see \<open>mount\<close>), starts again when the
  parameters change, and takes an answer only when it is the answer to the current
  parameters. The catalog call of the services step starts with no services and takes the
  answer when it comes.
\<close>

definition useFrappeGetCall_refetch :: "slots_request \<Rightarrow> slots_request \<Rightarrow> child \<Rightarrow> child" where
  "useFrappeGetCall_refetch old new c =
     (case c of
        DateTimeSelection d isLoading \<Rightarrow>
          (if new \<noteq> old then DateTimeSelection None True else c)
      | _ \<Rightarrow> c)"

definition useFrappeGetCall_answer ::
  "slots_request \<Rightarrow> slots_request \<Rightarrow> time_slots \<Rightarrow> child \<Rightarrow> child" where
  "useFrappeGetCall_answer current req message c =
     (case c of
        DateTimeSelection d isLoading \<Rightarrow>
          (if req = current then DateTimeSelection (Some message) False else c)
      | _ \<Rightarrow> c)"

section \<open>Events\<close>

text \<open>
  What can happen to the wizard: the user acts on a control of the mounted step, or a call
  is answered. An event whose control is not rendered, or whose call is not pending,
  changes nothing.
  \<^item> \<open>Type_customerInfo\<close>, \<open>Type_location\<close>: the user edits the inputs of a form;
  \<^item> \<open>Next\<close>: the Next button of steps 1 to 3; \<open>Back\<close>: the Back button wired to \<open>onBack\<close>,
    which step 1 does not have and step 4 renders only outside the mobile view;
  \<^item> \<open>Submit_form\<close>: submitting the form of step 3 from one of its inputs, which are
    rendered for the customer's location only;
  \<^item> \<open>Toggle_service\<close>: a click on the row of a service of the catalog;
  \<^item> \<open>Day_click\<close>, \<open>Set_timeZone\<close>: the calendar and the timezone menu, rendered unless the
    mobile view is expanded; \<open>Mobile_back\<close>: the mobile view's own Back, which collapses it;
  \<^item> \<open>Slot_select\<close>: a click on the button of a visible slot;
  \<^item> \<open>Services_loaded\<close>, \<open>Slots_loaded\<close>: a query call is answered;
  \<^item> \<open>Book_resolved\<close>, \<open>Book_rejected\<close>: a pending post call is answered.
\<close>

datatype 'e event =
    Type_customerInfo CustomerInfo
  | Type_location CustomerLocationData
  | Set_locationType location_type
  | Toggle_service js_string
  | Next
  | Back
  | Submit_form
  | Day_click js_date
  | Set_timeZone js_string
  | Mobile_back
  | Slot_select slot
  | Services_loaded "Service list"
  | Slots_loaded slots_request time_slots
  | Book_resolved booking_result
  | Book_rejected 'e

fun handle :: "'e env \<Rightarrow> 'e event \<Rightarrow> wizard \<Rightarrow> wizard" where
  "handle X (Type_customerInfo v) s =
     (case child s of
        CustomerInfoForm _ errors \<Rightarrow> s\<lparr>child := CustomerInfoForm v errors\<rparr>
      | _ \<Rightarrow> s)"
| "handle X (Type_location v) s =
     (case child s of
        MeetingLocation locType _ errors \<Rightarrow>
          (if locType = Customer_location then s\<lparr>child := MeetingLocation locType v errors\<rparr>
           else s)
      | _ \<Rightarrow> s)"
| "handle X (Set_locationType t) s =
     (case child s of
        MeetingLocation _ v errors \<Rightarrow> s\<lparr>child := MeetingLocation t v errors\<rparr>
      | _ \<Rightarrow> s)"
| "handle X (Toggle_service serviceName) s =
     (case child s of
        ServicesSelection selected catalog \<Rightarrow>
          (if serviceName \<in> set (map name' catalog)
           then s\<lparr>child := ServicesSelection (toggleService serviceName selected) catalog\<rparr>
           else s)
      | _ \<Rightarrow> s)"
| "handle X Next s =
     (case child s of
        CustomerInfoForm v _ \<Rightarrow> handleSubmit_customerInfo X v s
      | ServicesSelection selected _ \<Rightarrow> handleNext_services selected s
      | MeetingLocation locType v _ \<Rightarrow> handleNext_location locType v s
      | DateTimeSelection _ _ \<Rightarrow> s)"
| "handle X Back s =
     (case child s of
        CustomerInfoForm _ _ \<Rightarrow> s
      | ServicesSelection _ _ \<Rightarrow> s\<lparr>currentStep := Step1\<rparr>
      | MeetingLocation _ _ _ \<Rightarrow> s\<lparr>currentStep := Step2\<rparr>
      | DateTimeSelection _ _ \<Rightarrow>
          (if \<not> isMobileView X then s\<lparr>currentStep := Step3\<rparr> else s))"
| "handle X Submit_form s =
     (case child s of
        CustomerInfoForm v _ \<Rightarrow> handleSubmit_customerInfo X v s
      | MeetingLocation locType v _ \<Rightarrow>
          (if locType = Customer_location then handleSubmit_location locType v s else s)
      | _ \<Rightarrow> s)"
| "handle X (Day_click d) s =
     (case child s of
        DateTimeSelection _ _ \<Rightarrow>
          (if \<not> isMobileView X \<or> \<not> expanded s then onDayClick d s else s)
      | _ \<Rightarrow> s)"
| "handle X (Set_timeZone tz) s =
     (case child s of
        DateTimeSelection _ _ \<Rightarrow>
          (if \<not> isMobileView X \<or> \<not> expanded s
           then s\<lparr>app := (app s)\<lparr>timeZone' := tz\<rparr>\<rparr> else s)
      | _ \<Rightarrow> s)"
| "handle X Mobile_back s =
     (case child s of
        DateTimeSelection _ _ \<Rightarrow>
          (if isMobileView X \<and> expanded s then s\<lparr>expanded := False\<rparr> else s)
      | _ \<Rightarrow> s)"
| "handle X (Slot_select sl) s =
     (if sl \<in> set (visible_slots (child s)) then handleSlotSelect X sl s else s)"
| "handle X (Services_loaded catalog) s =
     (case child s of
        ServicesSelection selected _ \<Rightarrow> s\<lparr>child := ServicesSelection selected catalog\<rparr>
      | _ \<Rightarrow> s)"
| "handle X (Slots_loaded req message) s =
     s\<lparr>child := useFrappeGetCall_answer (slots_params X (app s)) req message (child s)\<rparr>"
| "handle X (Book_resolved message) s =
     (if inFlight s > 0 then bookAppointment_then message s else s)"
| "handle X (Book_rejected err) s =
     (if inFlight s > 0 then bookAppointment_catch X err s else s)"

text \<open>
  Rendering after a handler has run: when \<open>currentStep\<close> has changed, the component of the
  old step is unmounted and that of the new step is mounted with its \<open>initialData\<close>;
  otherwise the time-slot call follows its parameters.
\<close>

definition render :: "'e env \<Rightarrow> wizard \<Rightarrow> wizard \<Rightarrow> wizard" where
  "render X s s' =
     (if currentStep s' \<noteq> currentStep s
      then s'\<lparr>child := mount (currentStep s') (formData s')\<rparr>
      else s'\<lparr>child := useFrappeGetCall_refetch (slots_params X (app s))
                          (slots_params X (app s')) (child s')\<rparr>)"

definition react :: "'e env \<Rightarrow> 'e event \<Rightarrow> wizard \<Rightarrow> wizard" where
  "react X e s = render X s (handle X e s)"

fun run :: "'e env \<Rightarrow> 'e event list \<Rightarrow> wizard \<Rightarrow> wizard" where
  "run X [] s = s"
| "run X (e # es) s = run X es (react X e s)"

text \<open>
  The wizard as it opens: step 1, an empty draft, nothing posted. The app context and the
  current time (\<open>new Date()\<close>, the initial \<open>displayMonth\<close>) come from outside.
\<close>

definition init :: "AppContext \<Rightarrow> js_date \<Rightarrow> wizard" where
  "init ctx now =
     \<lparr>currentStep = Step1,
      formData = \<lparr>customerInfo = None, services = None, location' = None, dateTime = None\<rparr>,
      displayMonth = now,
      expanded = False,
      bookingResponse = None,
      appointmentScheduled = False,
      app = ctx,
      loading = False,
      inFlight = 0,
      child = mount Step1
        \<lparr>customerInfo = None, services = None, location' = None, dateTime = None\<rparr>,
      calls = [],
      toasts = []\<rparr>"

section \<open>Notions the properties are stated with\<close>

text \<open>The step a component belongs to.\<close>

fun shown :: "child \<Rightarrow> step" where
  "shown (CustomerInfoForm _ _) = Step1"
| "shown (ServicesSelection _ _) = Step2"
| "shown (MeetingLocation _ _ _) = Step3"
| "shown (DateTimeSelection _ _) = Step4"

text \<open>The errors a step shows; the services and the date-time step have no error display.\<close>

definition reported_errors :: "child \<Rightarrow> issue list" where
  "reported_errors c =
     (case c of
        CustomerInfoForm _ errors \<Rightarrow> errors
      | MeetingLocation _ _ errors \<Rightarrow> errors
      | _ \<Rightarrow> [])"

text \<open>The number of decimal digits (code units \<open>0\<close> to \<open>9\<close>) in a string.\<close>

definition digit_count :: "js_string \<Rightarrow> nat" where
  "digit_count v = length (filter (\<lambda>c. 48 \<le> c \<and> c \<le> 57) v)"


text \<open>
  What \<open>MeetingLocation\<close> hands to \<open>onNext\<close>: the detail of the chosen kind is there.
\<close>

definition location_complete :: "MeetingLocationData \<Rightarrow> bool" where
  "location_complete l =
     (case locationType l of
        Our_location \<Rightarrow> ourLocation l \<noteq> None
      | Customer_location \<Rightarrow> customerLocation l \<noteq> None)"

text \<open>A payload has the detail of its location type and not the other one.\<close>

definition exactly_one_location_detail :: "meetingData \<Rightarrow> bool" where
  "exactly_one_location_detail p =
     (case location_type p of
        Our_location \<Rightarrow> our_location p \<noteq> None \<and> customer_location p = None
      | Customer_location \<Rightarrow> customer_location p \<noteq> None \<and> our_location p = None)"

text \<open>Every payload posted so far is such, and the location in the draft is complete.\<close>

definition posts_inv :: "wizard \<Rightarrow> bool" where
  "posts_inv s =
     (list_all exactly_one_location_detail (calls s) \<and>
      (case location' (formData s) of None \<Rightarrow> True | Some l \<Rightarrow> location_complete l))"

section \<open>A worked session\<close>

text \<open>
  Concrete collaborators and inputs, for the examples below: a stand-in serialiser, two
  timezones, two days, an email grammar that asks for an \<open>@\<close>, a catalog of two services.
\<close>

definition example_stringify :: "json \<Rightarrow> js_string" where
  "example_stringify j =
     (case j of
        JString v \<Rightarrow> v
      | JArray xs \<Rightarrow>
          concat (map (\<lambda>x. case x of JString v \<Rightarrow> v @ js '','' | _ \<Rightarrow> []) xs)
      | JObject kvs \<Rightarrow>
          concat (map (\<lambda>(k, x). js k @ js ''='' @
                         (case x of JString v \<Rightarrow> v | _ \<Rightarrow> []) @ js '';'') kvs))"

definition example_env :: "string env" where
  "example_env =
     \<lparr>durationId = js ''30-min'',
      isMobileView = False,
      getTimeZoneOffsetFromTimeZoneString =
        (\<lambda>tz. if tz = js ''Asia/Dubai'' then 240 else 330),
      String_of = (\<lambda>n. if n = 240 then js ''240'' else js ''330''),
      format_en_CA = (\<lambda>d. if d < 86400000 then js ''1970-01-01'' else js ''1970-01-02''),
      JSON_stringify = example_stringify,
      parseFrappeErrorMsg = (\<lambda>e. if e = [] then None else Some (js e)),
      email_grammar = (\<lambda>v. 64 \<in> set v)\<rparr>"

definition example_ctx :: AppContext where
  "example_ctx = \<lparr>timeZone' = js ''Asia/Dubai'', selectedDate = 0, selectedSlot = None\<rparr>"

definition example_customer :: CustomerInfo where
  "example_customer =
     \<lparr>name = js ''Al'', phone = js ''0501234567'', email = js ''al@example.com''\<rparr>"

definition example_catalog :: "Service list" where
  "example_catalog =
     [\<lparr>name' = js ''A'', service_name = js ''Audit'', description = None\<rparr>,
      \<lparr>name' = js ''B'', service_name = js ''Backup'', description = None\<rparr>]"

definition example_address :: CustomerLocationData where
  "example_address =
     \<lparr>location = js ''Doha'', street = js ''Pearl'', building = js ''7'',
      apartment = Some []\<rparr>"

definition example_slot :: slot where
  "example_slot =
     \<lparr>start_time = js ''1970-01-02 09:00:00'', end_time = js ''1970-01-02 09:30:00''\<rparr>"

definition example_slots :: time_slots where
  "example_slots =
     \<lparr>all_available_slots_for_data = [example_slot], valid_start_date = None,
      valid_end_date = None, available_days = []\<rparr>"

definition example_result :: booking_result where
  "example_result =
     \<lparr>meeting_provider = js ''Zoom'', meet_link = js ''m'', reschedule_url = js ''r'',
      google_calendar_event_url = js ''g''\<rparr>"

text \<open>
  The states of the session: the customer form filled in; the services step with the
  catalog loaded and nothing selected; the location step after service \<open>A\<close> was chosen;
  the date-time step showing the slots of the second day; and the state after the slot was
  selected, with one post pending.
\<close>

definition example_step1 :: wizard where
  "example_step1 =
     react example_env (Type_customerInfo example_customer) (init example_ctx 0)"

definition example_step2 :: wizard where
  "example_step2 = run example_env [Next, Services_loaded example_catalog] example_step1"

definition example_step3 :: wizard where
  "example_step3 = run example_env [Toggle_service (js ''A''), Next] example_step2"

definition example_step4 :: wizard where
  "example_step4 =
     run example_env
       [Next, Day_click 86400000,
        Slots_loaded (js ''30-min'', js ''1970-01-02'', js ''240'') example_slots]
       example_step3"

definition example_posted :: wizard where
  "example_posted = react example_env (Slot_select example_slot) example_step4"



text \<open>
  The same session as one list of events, up to the post, with our location and with the
  customer's.
\<close>

definition example_events :: "string event list" where
  "example_events =
     [Type_customerInfo example_customer, Next, Services_loaded example_catalog,
      Toggle_service (js ''A''), Next, Next, Day_click 86400000,
      Slots_loaded (js ''30-min'', js ''1970-01-02'', js ''240'') example_slots,
      Slot_select example_slot]"

definition example_events_customer :: "string event list" where
  "example_events_customer =
     [Type_customerInfo example_customer, Next, Services_loaded example_catalog,
      Toggle_service (js ''A''), Next, Set_locationType Customer_location,
      Type_location example_address, Next, Day_click 86400000,
      Slots_loaded (js ''30-min'', js ''1970-01-02'', js ''240'') example_slots,
      Slot_select example_slot]"

section \<open>A complete session\<close>


section \<open>Properties\<close>

subsection \<open>Unfolding\<close>

lemmas model_defs = react_def render_def init_def handleSubmit_customerInfo_def
  handleCustomerInfoNext_def customerInfoSchema_def z_min_def z_email_def js_def
  handleNext_services_def handleServicesNext_def toggleService_def handleNext_location_def
  handleLocationNext_def handleSubmit_location_def onSubmit_location_def
  customerLocationSchema_def slots_params_def visible_slots_def handleSlotSelect_def
  handleDateTimeNext_def submitBooking_def bookAppointment_def composeMeetingData_def
  toast_def onDayClick_def useFrappeGetCall_refetch_def useFrappeGetCall_answer_def
  bookAppointment_then_def bookAppointment_catch_def or_empty_def
  json_of_customerLocation_def

lemmas example_defs = example_env_def example_ctx_def example_customer_def
  example_catalog_def example_address_def example_slot_def example_slots_def
  example_result_def example_stringify_def

subsection \<open>The schemas\<close>

lemma digit_count_le: "digit_count v \<le> length v"
  by (simp add: digit_count_def)

lemma customerInfoSchema_nil:
  "customerInfoSchema X v = [] \<longleftrightarrow>
     2 \<le> length (name v) \<and> 10 \<le> length (phone v) \<and> email_grammar X (email v)"
  by (auto simp: customerInfoSchema_def z_min_def z_email_def)

lemma customerLocationSchema_nil:
  "customerLocationSchema v = [] \<longleftrightarrow>
     3 \<le> length (location v) \<and> 3 \<le> length (street v) \<and> 1 \<le> length (building v)"
  by (auto simp: customerLocationSchema_def z_min_def Suc_le_eq)



subsection \<open>Rendering\<close>

lemma refetch_same [simp]: "useFrappeGetCall_refetch p p c = c"
  by (simp add: useFrappeGetCall_refetch_def split: child.splits)

lemma refetch_other [simp]:
  "useFrappeGetCall_refetch p q (CustomerInfoForm v errs) = CustomerInfoForm v errs"
  "useFrappeGetCall_refetch p q (ServicesSelection selected catalog) =
     ServicesSelection selected catalog"
  "useFrappeGetCall_refetch p q (MeetingLocation t w errs) = MeetingLocation t w errs"
  by (simp_all add: useFrappeGetCall_refetch_def)

lemma render_same_step:
  "currentStep s' = currentStep s \<Longrightarrow> app s' = app s \<Longrightarrow> render X s s' = s'"
  by (simp add: render_def)

lemma render_new_step:
  "currentStep s' \<noteq> currentStep s \<Longrightarrow>
   render X s s' = s'\<lparr>child := mount (currentStep s') (formData s')\<rparr>"
  by (simp add: render_def)

lemma shown_mount [simp]: "shown (mount k fd) = k"
  by (cases k) (simp_all add: Let_def)

lemma shown_refetch [simp]: "shown (useFrappeGetCall_refetch p q c) = shown c"
  by (cases c) (simp_all add: useFrappeGetCall_refetch_def)

lemma shown_answer [simp]: "shown (useFrappeGetCall_answer p q m c) = shown c"
  by (cases c) (simp_all add: useFrappeGetCall_answer_def)

subsection \<open>One event at a time\<close>


lemma next_customerInfo_valid:
  assumes "currentStep s = Step1" and "child s = CustomerInfoForm v errs"
    and "customerInfoSchema X v = []"
  shows "react X Next s =
         s\<lparr>formData := (formData s)\<lparr>customerInfo := Some v\<rparr>, currentStep := Step2,
           child := mount Step2 ((formData s)\<lparr>customerInfo := Some v\<rparr>)\<rparr>"
  using assms
  by (simp add: react_def render_new_step handleSubmit_customerInfo_def
      handleCustomerInfoNext_def)




lemma next_services_empty:
  assumes "child s = ServicesSelection [] catalog"
  shows "react X Next s = s"
  using assms by (simp add: react_def render_same_step handleNext_services_def)

lemma next_services_chosen:
  assumes "currentStep s = Step2" and "child s = ServicesSelection selected catalog"
    and "selected \<noteq> []"
  shows "react X Next s =
         s\<lparr>formData := (formData s)\<lparr>services := Some \<lparr>selectedServices = selected\<rparr>\<rparr>,
           currentStep := Step3,
           child := mount Step3
             ((formData s)\<lparr>services := Some \<lparr>selectedServices = selected\<rparr>\<rparr>)\<rparr>"
  using assms
  by (simp add: react_def render_new_step handleNext_services_def handleServicesNext_def)

lemma set_locationType_event:
  assumes "child s = MeetingLocation t v errs"
  shows "react X (Set_locationType t') s = s\<lparr>child := MeetingLocation t' v errs\<rparr>"
  using assms by (simp add: react_def render_same_step)

lemma type_location_event:
  assumes "child s = MeetingLocation Customer_location v errs"
  shows "react X (Type_location w) s = s\<lparr>child := MeetingLocation Customer_location w errs\<rparr>"
  using assms by (simp add: react_def render_same_step)


lemma next_location_ours:
  assumes "currentStep s = Step3" and "child s = MeetingLocation Our_location v errs"
  shows "react X Next s =
         s\<lparr>formData := (formData s)\<lparr>location' := Some
               \<lparr>locationType = Our_location, ourLocation = Some ourLocation_const,
                customerLocation = None\<rparr>\<rparr>,
           currentStep := Step4, child := DateTimeSelection None True\<rparr>"
  using assms
  by (simp add: react_def render_new_step handleNext_location_def handleLocationNext_def)

lemma next_location_customer_valid:
  assumes "currentStep s = Step3" and "child s = MeetingLocation Customer_location v errs"
    and "customerLocationSchema v = []"
  shows "react X Next s =
         s\<lparr>formData := (formData s)\<lparr>location' := Some
               \<lparr>locationType = Customer_location, ourLocation = None,
                customerLocation = Some v\<rparr>\<rparr>,
           currentStep := Step4, child := DateTimeSelection None True\<rparr>"
  using assms
  by (simp add: react_def render_new_step handleNext_location_def handleLocationNext_def
      handleSubmit_location_def onSubmit_location_def)

lemma next_location_customer_invalid:
  assumes "child s = MeetingLocation Customer_location v errs"
    and "customerLocationSchema v \<noteq> []"
  shows "react X Next s =
         s\<lparr>child := MeetingLocation Customer_location v (customerLocationSchema v)\<rparr>"
  using assms
  by (simp add: react_def render_same_step handleNext_location_def handleSubmit_location_def)

lemma back_event:
  "child s = CustomerInfoForm v errs \<Longrightarrow> react X Back s = s"
  "currentStep s = Step2 \<Longrightarrow> child s = ServicesSelection selected catalog \<Longrightarrow>
     react X Back s = s\<lparr>currentStep := Step1, child := mount Step1 (formData s)\<rparr>"
  "currentStep s = Step3 \<Longrightarrow> child s = MeetingLocation t w errs \<Longrightarrow>
     react X Back s = s\<lparr>currentStep := Step2, child := mount Step2 (formData s)\<rparr>"
  "currentStep s = Step4 \<Longrightarrow> child s = DateTimeSelection d l \<Longrightarrow> \<not> isMobileView X \<Longrightarrow>
     react X Back s = s\<lparr>currentStep := Step3, child := mount Step3 (formData s)\<rparr>"
  "child s = DateTimeSelection d l \<Longrightarrow> isMobileView X \<Longrightarrow> react X Back s = s"
  by (simp_all add: react_def render_same_step render_new_step)

lemma day_click_event:
  assumes "child s = DateTimeSelection d l" and "\<not> isMobileView X \<or> \<not> expanded s"
  shows "react X (Day_click d2) s =
         (onDayClick d2 s)\<lparr>child :=
            useFrappeGetCall_refetch (slots_params X (app s))
              (slots_params X (app (onDayClick d2 s))) (DateTimeSelection d l)\<rparr>"
  using assms by (simp add: react_def render_def onDayClick_def)

lemma slots_loaded_event:
  "react X (Slots_loaded req m) s =
     s\<lparr>child := useFrappeGetCall_answer (slots_params X (app s)) req m (child s)\<rparr>"
  by (simp add: react_def render_def)





subsection \<open>Runs\<close>




text \<open>The component that is mounted is always the one of the current step.\<close>

lemma handle_shown: "shown (child (handle X e s)) = shown (child s)"
  by (cases e; cases "child s")
     (simp_all add: handleSubmit_customerInfo_def handleCustomerInfoNext_def
        handleNext_services_def handleServicesNext_def handleNext_location_def
        handleLocationNext_def handleSubmit_location_def onSubmit_location_def
        onDayClick_def handleSlotSelect_def handleDateTimeNext_def submitBooking_def
        bookAppointment_def bookAppointment_then_def bookAppointment_catch_def toast_def
        Let_def split: option.splits)

lemma react_shown:
  "shown (child s) = currentStep s \<Longrightarrow> shown (child (react X e s)) = currentStep (react X e s)"
  by (simp add: react_def render_def handle_shown)

lemma run_shown:
  "shown (child s) = currentStep s \<Longrightarrow> shown (child (run X es s)) = currentStep (run X es s)"
  by (induction es arbitrary: s) (simp_all add: react_shown)

lemma init_shown: "shown (child (init ctx now)) = currentStep (init ctx now)"
  by (simp add: init_def)

text \<open>The location in the draft is always complete, and so is every payload posted.\<close>

lemma composed_exactly_one:
  "location_complete loc \<Longrightarrow> exactly_one_location_detail (composeMeetingData X ci sv loc dt)"
  by (auto simp: location_complete_def exactly_one_location_detail_def composeMeetingData_def
      split: location_type.splits)

lemma handle_location_inv:
  "posts_inv s \<Longrightarrow> posts_inv (handle X e s)"
proof (cases e)
  case (Slot_select sl)
  assume "posts_inv s"
  then show ?thesis
    unfolding Slot_select
    by (auto simp: posts_inv_def handleSlotSelect_def handleDateTimeNext_def
        submitBooking_def bookAppointment_def toast_def composed_exactly_one
        split: option.splits)
next
  case Next
  assume "posts_inv s"
  then show ?thesis
    unfolding Next
    by (cases "child s")
       (auto simp: posts_inv_def handleSubmit_customerInfo_def handleCustomerInfoNext_def
          handleNext_services_def handleServicesNext_def handleNext_location_def
          handleLocationNext_def handleSubmit_location_def onSubmit_location_def
          location_complete_def Let_def split: option.splits)
next
  case Submit_form
  assume "posts_inv s"
  then show ?thesis
    unfolding Submit_form
    by (cases "child s")
       (auto simp: posts_inv_def handleSubmit_customerInfo_def handleCustomerInfoNext_def
          handleSubmit_location_def onSubmit_location_def handleLocationNext_def
          location_complete_def Let_def split: option.splits)
qed (auto simp: posts_inv_def onDayClick_def bookAppointment_then_def
       bookAppointment_catch_def toast_def split: child.splits)

lemma render_location_inv: "posts_inv s' \<Longrightarrow> posts_inv (render X s s')"
  by (simp add: posts_inv_def render_def)

lemma react_location_inv: "posts_inv s \<Longrightarrow> posts_inv (react X e s)"
  by (simp add: react_def render_location_inv handle_location_inv)

lemma run_location_inv: "posts_inv s \<Longrightarrow> posts_inv (run X es s)"
  by (induction es arbitrary: s) (simp_all add: react_location_inv)

lemma init_location_inv: "posts_inv (init ctx now)"
  by (simp add: posts_inv_def init_def)

subsection \<open>The worked session\<close>

lemma example_step1_eq:
  "example_step1 = (init example_ctx 0)\<lparr>child := CustomerInfoForm example_customer []\<rparr>"
  by (simp add: example_step1_def react_def render_def init_def or_empty_def)

lemma example_step1_facts:
  "currentStep example_step1 = Step1"
  "child example_step1 = CustomerInfoForm example_customer []"
  by (simp_all add: example_step1_eq init_def)

lemma example_customer_valid: "customerInfoSchema example_env example_customer = []"
  by (simp add: customerInfoSchema_nil example_customer_def example_env_def js_def)

lemma example_step2_facts:
  "currentStep example_step2 = Step2"
  "child example_step2 = ServicesSelection [] example_catalog"
  "formData example_step2 =
     \<lparr>customerInfo = Some example_customer, services = None, location' = None,
      dateTime = None\<rparr>"
  "calls example_step2 = []"
  "toasts example_step2 = []"
  by (simp_all add: example_step2_def example_step1_def model_defs example_defs)

lemma example_step3_facts:
  "currentStep example_step3 = Step3"
  "child example_step3 =
     MeetingLocation Our_location
       \<lparr>location = [], street = [], building = [], apartment = Some []\<rparr> []"
  "formData example_step3 =
     \<lparr>customerInfo = Some example_customer,
      services = Some \<lparr>selectedServices = [js ''A'']\<rparr>, location' = None,
      dateTime = None\<rparr>"
  by (simp_all add: example_step3_def example_step2_def example_step1_def model_defs
      example_defs)

lemma example_step4_facts:
  "currentStep example_step4 = Step4"
  "child example_step4 = DateTimeSelection (Some example_slots) False"
  "formData example_step4 =
     \<lparr>customerInfo = Some example_customer,
      services = Some \<lparr>selectedServices = [js ''A'']\<rparr>,
      location' = Some \<lparr>locationType = Our_location, ourLocation = Some ourLocation_const,
                        customerLocation = None\<rparr>,
      dateTime = None\<rparr>"
  "app example_step4 =
     \<lparr>timeZone' = js ''Asia/Dubai'', selectedDate = 86400000,
      selectedSlot = Some \<lparr>start_time = [], end_time = []\<rparr>\<rparr>"
  "calls example_step4 = []"
  "inFlight example_step4 = 0"
  "loading example_step4 = False"
  by (simp_all add: example_step4_def example_step3_def example_step2_def example_step1_def
      model_defs example_defs)

lemma example_posted_facts:
  "currentStep example_posted = Step4"
  "inFlight example_posted = 1"
  "loading example_posted"
  "length (calls example_posted) = 1"
  "toasts example_posted = []"
  "child example_posted = DateTimeSelection (Some example_slots) False"
  "dateTime (formData example_posted) =
     Some \<lparr>date = 86400000, startTime = start_time example_slot,
           endTime = end_time example_slot, timeZone = js ''Asia/Dubai''\<rparr>"
  by (simp_all add: example_posted_def example_step4_def example_step3_def example_step2_def
      example_step1_def model_defs example_defs)

lemma example_events_calls:
  "calls (run example_env example_events (init example_ctx 0)) =
     [\<lparr>duration_id = js ''30-min'', date' = js ''1970-01-02'',
       user_timezone_offset = js ''240'',
       start_time' = js ''1970-01-02 09:00:00'', end_time' = js ''1970-01-02 09:30:00'',
       user_name = js ''Al'', user_email = js ''al@example.com'',
       customer_phone = js ''0501234567'', selected_services = js ''A,'',
       location_type = Our_location, our_location = Some ourLocation_const,
       customer_location = None\<rparr>]"
  by (simp add: example_events_def model_defs example_defs)

lemma example_events_customer_calls:
  "calls (run example_env example_events_customer (init example_ctx 0)) =
     [\<lparr>duration_id = js ''30-min'', date' = js ''1970-01-02'',
       user_timezone_offset = js ''240'',
       start_time' = js ''1970-01-02 09:00:00'', end_time' = js ''1970-01-02 09:30:00'',
       user_name = js ''Al'', user_email = js ''al@example.com'',
       customer_phone = js ''0501234567'', selected_services = js ''A,'',
       location_type = Customer_location, our_location = None,
       customer_location = Some (js ''location=Doha;street=Pearl;building=7;apartment=;'')\<rparr>]"
  by (simp add: example_events_customer_def model_defs example_defs)

section \<open>The claims\<close>

subsection \<open>C1: a complete session\<close>




subsection \<open>C2: posting the booking\<close>

text \<open>
  Claim C2: while one submission is pending, no second one may be started. The code does
  not keep it. \<open>MultiStepBooking\<close> renders a full-screen overlay while \<open>loading\<close> is
  true, but the slot buttons are never disabled and no handler reads the flag. In the
  worked session, after the slot was selected one post is pending and \<open>loading\<close> is
  true; the same slot selected again (its button has the focus and answers to the
  keyboard under the overlay) starts a second post while the first is still pending.
\<close>

theorem C2_second_post_while_pending:
  "loading example_posted \<and> inFlight example_posted = 1 \<and>
   length (calls example_posted) = 1 \<and>
   example_slot \<in> set (visible_slots (child example_posted)) \<and>
   length (calls (react example_env (Slot_select example_slot) example_posted)) = 2 \<and>
   inFlight (react example_env (Slot_select example_slot) example_posted) = 2"
  by (simp add: example_posted_def example_step4_def example_step3_def example_step2_def
      example_step1_def model_defs example_defs)

subsection \<open>C3: a failed submission\<close>

text \<open>
  Claim C3. When a pending submission fails, the draft is unchanged, the wizard stays on
  the step it is on (the date-time step, where the submission was started) with the same
  component and app context, it is no more confirmed than before, nothing is posted, and
  one toast is shown: the message that \<open>parseFrappeErrorMsg\<close> finds in the error when
  there is one and it is not empty, and "Something went wrong" otherwise.
\<close>

theorem C3_failed_submission:
  assumes "inFlight s > 0"
  shows "formData (react X (Book_rejected err) s) = formData s \<and>
         currentStep (react X (Book_rejected err) s) = currentStep s \<and>
         child (react X (Book_rejected err) s) = child s \<and>
         app (react X (Book_rejected err) s) = app s \<and>
         confirmed (react X (Book_rejected err) s) = confirmed s \<and>
         calls (react X (Book_rejected err) s) = calls s \<and>
         toasts (react X (Book_rejected err) s) =
           toasts s @
           [case parseFrappeErrorMsg X err of
              None \<Rightarrow> js ''Something went wrong''
            | Some m \<Rightarrow> if m = [] then js ''Something went wrong'' else m]"
proof -
  have "react X (Book_rejected err) s = bookAppointment_catch X err s"
    using assms
    by (simp add: react_def render_same_step bookAppointment_catch_def toast_def)
  then show ?thesis
    by (simp add: bookAppointment_catch_def toast_def confirmed_def)
qed

theorem C3_failed_submission_witness:
  "inFlight example_posted > 0 \<and>
   currentStep (react example_env (Book_rejected ''Slot taken'') example_posted) = Step4 \<and>
   formData (react example_env (Book_rejected ''Slot taken'') example_posted) =
     formData example_posted \<and>
   toasts (react example_env (Book_rejected ''Slot taken'') example_posted) =
     [js ''Slot taken''] \<and>
   toasts (react example_env (Book_rejected []) example_posted) =
     [js ''Something went wrong'']"
proof -
  have h: "inFlight example_posted > 0" by (simp add: example_posted_facts)
  from C3_failed_submission [OF h, of example_env "''Slot taken''"]
    C3_failed_submission [OF h, of example_env "[]"]
    h example_posted_facts(1,5)
  show ?thesis by (simp add: example_env_def js_def)
qed

subsection \<open>C4: invalid input\<close>




subsection \<open>C5: valid customer information\<close>

text \<open>
  Claim C5. For every customer-info input with a name of at least 2 characters, a phone of
  at least 10 digits and an email in the email grammar, Next on the customer-info step
  succeeds: the input is recorded in the draft, the rest of the draft is as it was, and
  the wizard is on the services step. (The schema asks the phone for 10 characters of any
  kind, which 10 digits give.)
\<close>

theorem C5_valid_customer_info_advances:
  assumes "currentStep s = Step1" and "child s = CustomerInfoForm v errs"
    and "2 \<le> length (name v)" and "10 \<le> digit_count (phone v)"
    and "email_grammar X (email v)"
  shows "currentStep (react X Next s) = Step2 \<and>
         customerInfo (formData (react X Next s)) = Some v \<and>
         formData (react X Next s) = (formData s)\<lparr>customerInfo := Some v\<rparr>"
proof -
  have "10 \<le> length (phone v)"
    using assms(4) digit_count_le [of "phone v"] by linarith
  with assms(3,5) have "customerInfoSchema X v = []"
    by (simp add: customerInfoSchema_nil)
  with assms(1,2) show ?thesis
    by (simp add: next_customerInfo_valid)
qed

theorem C5_valid_customer_info_advances_witness:
  "currentStep example_step1 = Step1 \<and>
   child example_step1 = CustomerInfoForm example_customer [] \<and>
   2 \<le> length (name example_customer) \<and>
   10 \<le> digit_count (phone example_customer) \<and>
   email_grammar example_env (email example_customer) \<and>
   currentStep (react example_env Next example_step1) = Step2 \<and>
   customerInfo (formData (react example_env Next example_step1)) = Some example_customer"
proof -
  have h3: "2 \<le> length (name example_customer)"
    by (simp add: example_customer_def js_def)
  have h4: "10 \<le> digit_count (phone example_customer)"
    by (simp add: example_customer_def js_def digit_count_def)
  have h5: "email_grammar example_env (email example_customer)"
    by (simp add: example_customer_def example_env_def js_def)
  from C5_valid_customer_info_advances [OF example_step1_facts h3 h4 h5]
    example_step1_facts h3 h4 h5
  show ?thesis by simp
qed

subsection \<open>C6: Back\<close>

text \<open>
  Claim C6, as stated, fails for data entered on the step being left: on the services
  step with service \<open>A\<close> selected, Back and then Next show the services step with nothing
  selected, and the draft holds no selection.
\<close>

theorem C6_unrecorded_selection_counterexample:
  "child (react example_env (Toggle_service (js ''A'')) example_step2) =
     ServicesSelection [js ''A''] example_catalog \<and>
   currentStep (run example_env [Toggle_service (js ''A''), Back] example_step2) = Step1 \<and>
   currentStep (run example_env [Toggle_service (js ''A''), Back, Next] example_step2) = Step2 \<and>
   child (run example_env [Toggle_service (js ''A''), Back, Next] example_step2) =
     ServicesSelection [] [] \<and>
   services (formData (run example_env [Toggle_service (js ''A''), Back, Next] example_step2)) =
     None"
  by (simp add: example_step2_def example_step1_def model_defs example_defs)

text \<open>
  Claim C6, amended. On a step \<open>n > 1\<close> whose Back button is rendered (steps 2 and 3, and
  step 4 outside the mobile view), Back moves to step \<open>n - 1\<close>; step 1 has no Back button
  and Back changes nothing there. Back leaves the draft and the app context (date, slot,
  timezone) unchanged, and the step arrived at starts from what the draft holds for it,
  as does every step whenever an event changes the current step. So what an earlier Next
  recorded is kept for every step, the step being left included; what was entered on the
  step being left and not recorded by Next is dropped with the step's component. (The
  component of the current step is the one mounted in every state the wizard reaches:
  \<open>init_shown\<close>, \<open>run_shown\<close>.)
\<close>

theorem C6_retreat:
  "(shown (child s) = currentStep s \<and> 1 < step_no (currentStep s) \<and>
    (currentStep s = Step4 \<longrightarrow> \<not> isMobileView X) \<longrightarrow>
      step_no (currentStep (react X Back s)) = step_no (currentStep s) - 1 \<and>
      formData (react X Back s) = formData s \<and>
      app (react X Back s) = app s \<and>
      child (react X Back s) = mount (currentStep (react X Back s)) (formData s)) \<and>
   (shown (child s) = currentStep s \<and> currentStep s = Step1 \<longrightarrow> react X Back s = s) \<and>
   (currentStep (react X e s) \<noteq> currentStep s \<longrightarrow>
      child (react X e s) = mount (currentStep (react X e s)) (formData (react X e s)))"
proof (intro conjI impI)
  assume h: "shown (child s) = currentStep s \<and> 1 < step_no (currentStep s) \<and>
    (currentStep s = Step4 \<longrightarrow> \<not> isMobileView X)"
  then have "react X Back s =
      s\<lparr>currentStep := (case currentStep s of Step2 \<Rightarrow> Step1 | Step3 \<Rightarrow> Step2 | _ \<Rightarrow> Step3),
        child := mount (case currentStep s of Step2 \<Rightarrow> Step1 | Step3 \<Rightarrow> Step2 | _ \<Rightarrow> Step3)
                  (formData s)\<rparr>"
    by (cases "child s"; cases "currentStep s") (simp_all add: back_event)
  with h show "step_no (currentStep (react X Back s)) = step_no (currentStep s) - 1"
    and "formData (react X Back s) = formData s"
    and "app (react X Back s) = app s"
    and "child (react X Back s) = mount (currentStep (react X Back s)) (formData s)"
    by (simp_all split: step.splits)
next
  assume "shown (child s) = currentStep s \<and> currentStep s = Step1"
  then show "react X Back s = s"
    by (cases "child s") (auto simp: back_event)
next
  assume "currentStep (react X e s) \<noteq> currentStep s"
  then show "child (react X e s) = mount (currentStep (react X e s)) (formData (react X e s))"
    by (simp add: react_def render_def split: if_splits)
qed

theorem C6_retreat_witness:
  "shown (child example_step3) = currentStep example_step3 \<and>
   1 < step_no (currentStep example_step3) \<and>
   currentStep example_step3 \<noteq> Step4 \<and>
   currentStep (react example_env Back example_step3) = Step2 \<and>
   formData (react example_env Back example_step3) = formData example_step3 \<and>
   child (react example_env Back example_step3) = ServicesSelection [js ''A''] [] \<and>
   shown (child example_step4) = currentStep example_step4 \<and>
   currentStep example_step4 = Step4 \<and> \<not> isMobileView example_env \<and>
   currentStep (react example_env Back example_step4) = Step3 \<and>
   formData (react example_env Back example_step4) = formData example_step4 \<and>
   app (react example_env Back example_step4) = app example_step4 \<and>
   child (react example_env Back example_step4) =
     MeetingLocation Our_location
       \<lparr>location = [], street = [], building = [], apartment = Some []\<rparr> [] \<and>
   shown (child example_step1) = currentStep example_step1 \<and>
   currentStep example_step1 = Step1 \<and>
   react example_env Back example_step1 = example_step1"
proof -
  have b: "react example_env Back example_step3 =
           example_step3\<lparr>currentStep := Step2, child := mount Step2 (formData example_step3)\<rparr>"
    by (simp add: back_event example_step3_facts)
  have m: "\<not> isMobileView example_env"
    by (simp add: example_env_def)
  have c: "react example_env Back example_step4 =
           example_step4\<lparr>currentStep := Step3, child := mount Step3 (formData example_step4)\<rparr>"
    using m by (simp add: back_event example_step4_facts)
  from C6_retreat [of example_step3 example_env Back]
    C6_retreat [of example_step4 example_env Back]
    C6_retreat [of example_step1 example_env Back]
    example_step3_facts example_step4_facts example_step1_facts b c m
  show ?thesis by (simp add: or_empty_def)
qed

subsection \<open>C7: the services step\<close>

text \<open>
  Claim C7. On the services step, Next with an empty selection fails: nothing changes. Next
  with a non-empty selection whose ids are in the catalog response succeeds and records
  exactly the selected ids in the draft. With a catalog that has \<open>a\<close> (the witness below
  takes the catalog \<open>[A, B]\<close>) and nothing selected, selecting \<open>a\<close> and pressing Next
  records the selection \<open>[a]\<close>.
\<close>

theorem C7_services_step:
  "(child s = ServicesSelection [] catalog \<longrightarrow> react X Next s = s) \<and>
   (currentStep s = Step2 \<and> child s = ServicesSelection selected catalog \<and>
    selected \<noteq> [] \<and> set selected \<subseteq> set (map name' catalog) \<longrightarrow>
      currentStep (react X Next s) = Step3 \<and>
      services (formData (react X Next s)) = Some \<lparr>selectedServices = selected\<rparr>) \<and>
   (currentStep s = Step2 \<and> child s = ServicesSelection [] catalog \<and>
    a \<in> set (map name' catalog) \<longrightarrow>
      currentStep (run X [Toggle_service a, Next] s) = Step3 \<and>
      services (formData (run X [Toggle_service a, Next] s)) =
        Some \<lparr>selectedServices = [a]\<rparr>)"
proof (intro conjI impI)
  assume "child s = ServicesSelection [] catalog"
  then show "react X Next s = s" by (rule next_services_empty)
next
  assume h: "currentStep s = Step2 \<and> child s = ServicesSelection selected catalog \<and>
    selected \<noteq> [] \<and> set selected \<subseteq> set (map name' catalog)"
  then show "currentStep (react X Next s) = Step3"
    and "services (formData (react X Next s)) = Some \<lparr>selectedServices = selected\<rparr>"
    by (simp_all add: next_services_chosen)
next
  assume h: "currentStep s = Step2 \<and> child s = ServicesSelection [] catalog \<and>
    a \<in> set (map name' catalog)"
  then have t: "react X (Toggle_service a) s = s\<lparr>child := ServicesSelection [a] catalog\<rparr>"
    by (simp add: react_def render_same_step toggleService_def)
  have n: "react X Next (s\<lparr>child := ServicesSelection [a] catalog\<rparr>) =
        (s\<lparr>child := ServicesSelection [a] catalog\<rparr>)
         \<lparr>formData := (formData s)\<lparr>services := Some \<lparr>selectedServices = [a]\<rparr>\<rparr>,
           currentStep := Step3,
           child := mount Step3
             ((formData s)\<lparr>services := Some \<lparr>selectedServices = [a]\<rparr>\<rparr>)\<rparr>"
    using h next_services_chosen [of "s\<lparr>child := ServicesSelection [a] catalog\<rparr>" "[a]" catalog X]
    by simp
  from t n show "currentStep (run X [Toggle_service a, Next] s) = Step3"
    and "services (formData (run X [Toggle_service a, Next] s)) =
        Some \<lparr>selectedServices = [a]\<rparr>"
    by simp_all
qed

theorem C7_services_step_witness:
  "child example_step2 = ServicesSelection [] example_catalog \<and>
   react example_env Next example_step2 = example_step2 \<and>
   currentStep example_step2 = Step2 \<and>
   js ''A'' \<in> set (map name' example_catalog) \<and>
   currentStep (run example_env [Toggle_service (js ''A''), Next] example_step2) = Step3 \<and>
   services (formData (run example_env [Toggle_service (js ''A''), Next] example_step2)) =
     Some \<lparr>selectedServices = [js ''A'']\<rparr> \<and>
   child (react example_env (Toggle_service (js ''A'')) example_step2) =
     ServicesSelection [js ''A''] example_catalog \<and>
   services (formData (react example_env Next
       (react example_env (Toggle_service (js ''A'')) example_step2))) =
     Some \<lparr>selectedServices = [js ''A'']\<rparr>"
proof -
  have a: "js ''A'' \<in> set (map name' example_catalog)"
    by (simp add: example_catalog_def js_def)
  have t: "react example_env (Toggle_service (js ''A'')) example_step2 =
           example_step2\<lparr>child := ServicesSelection [js ''A''] example_catalog\<rparr>"
    using a by (simp add: react_def render_same_step toggleService_def example_step2_facts)
  have t2: "currentStep (react example_env (Toggle_service (js ''A'')) example_step2) = Step2"
    "child (react example_env (Toggle_service (js ''A'')) example_step2) =
       ServicesSelection [js ''A''] example_catalog"
    "set [js ''A''] \<subseteq> set (map name' example_catalog)"
    using a by (simp_all add: t example_step2_facts)
  from C7_services_step [of example_step2 example_catalog example_env "[]" "js ''A''"]
    C7_services_step [of "react example_env (Toggle_service (js ''A'')) example_step2" example_catalog
      example_env "[js ''A'']" "js ''A''"]
    example_step2_facts a t2
  show ?thesis by simp
qed

subsection \<open>C8: the location step\<close>

text \<open>
  Claim C8. On the location step with the customer's location chosen, the location, the
  street and the building are required, with at least 3, 3 and 1 characters, and the
  apartment is optional: Next records the address and moves to the date-time step when the
  three are long enough, and changes neither the step nor the draft when one is not. With
  the street missing, Next fails with the error "Street name is required" on the street.
  With our location chosen, Next succeeds whatever the form holds and records the fixed
  address \<open>ourLocation_const\<close>.
\<close>

theorem C8_location_step:
  "(currentStep s = Step3 \<and> child s = MeetingLocation Customer_location v errs \<and>
    3 \<le> length (location v) \<and> 3 \<le> length (street v) \<and> 1 \<le> length (building v) \<longrightarrow>
      currentStep (react X Next s) = Step4 \<and>
      location' (formData (react X Next s)) =
        Some \<lparr>locationType = Customer_location, ourLocation = None,
              customerLocation = Some v\<rparr>) \<and>
   (child s = MeetingLocation Customer_location v errs \<and>
    (length (location v) < 3 \<or> length (street v) < 3 \<or> length (building v) < 1) \<longrightarrow>
      currentStep (react X Next s) = currentStep s \<and>
      formData (react X Next s) = formData s) \<and>
   (child s = MeetingLocation Customer_location v errs \<and> street v = [] \<longrightarrow>
      currentStep (react X Next s) = currentStep s \<and>
      formData (react X Next s) = formData s \<and>
      (''street'', js ''Street name is required'')
        \<in> set (reported_errors (child (react X Next s)))) \<and>
   (currentStep s = Step3 \<and> child s = MeetingLocation Our_location v errs \<longrightarrow>
      currentStep (react X Next s) = Step4 \<and>
      location' (formData (react X Next s)) =
        Some \<lparr>locationType = Our_location, ourLocation = Some ourLocation_const,
              customerLocation = None\<rparr>)"
proof (intro conjI impI)
  assume h: "currentStep s = Step3 \<and> child s = MeetingLocation Customer_location v errs \<and>
    3 \<le> length (location v) \<and> 3 \<le> length (street v) \<and> 1 \<le> length (building v)"
  then have "customerLocationSchema v = []" by (simp add: customerLocationSchema_nil)
  with h show "currentStep (react X Next s) = Step4"
    and "location' (formData (react X Next s)) =
        Some \<lparr>locationType = Customer_location, ourLocation = None,
              customerLocation = Some v\<rparr>"
    by (simp_all add: next_location_customer_valid)
next
  assume h: "child s = MeetingLocation Customer_location v errs \<and>
    (length (location v) < 3 \<or> length (street v) < 3 \<or> length (building v) < 1)"
  then have "customerLocationSchema v \<noteq> []"
    by (auto simp: customerLocationSchema_nil)
  with h show "currentStep (react X Next s) = currentStep s"
    and "formData (react X Next s) = formData s"
    by (simp_all add: next_location_customer_invalid)
next
  assume h: "child s = MeetingLocation Customer_location v errs \<and> street v = []"
  then have "customerLocationSchema v \<noteq> []"
    by (simp add: customerLocationSchema_nil)
  with h have "react X Next s =
      s\<lparr>child := MeetingLocation Customer_location v (customerLocationSchema v)\<rparr>"
    by (simp add: next_location_customer_invalid)
  moreover have "(''street'', js ''Street name is required'') \<in> set (customerLocationSchema v)"
    using h by (simp add: customerLocationSchema_def z_min_def)
  ultimately show "currentStep (react X Next s) = currentStep s"
    and "formData (react X Next s) = formData s"
    and "(''street'', js ''Street name is required'')
        \<in> set (reported_errors (child (react X Next s)))"
    by (simp_all add: reported_errors_def)
next
  assume h: "currentStep s = Step3 \<and> child s = MeetingLocation Our_location v errs"
  then show "currentStep (react X Next s) = Step4"
    and "location' (formData (react X Next s)) =
        Some \<lparr>locationType = Our_location, ourLocation = Some ourLocation_const,
              customerLocation = None\<rparr>"
    by (simp_all add: next_location_ours)
qed

theorem C8_location_step_witness:
  "currentStep example_step3 = Step3 \<and>
   location' (formData (react example_env Next example_step3)) =
     Some \<lparr>locationType = Our_location, ourLocation = Some ourLocation_const,
           customerLocation = None\<rparr> \<and>
   currentStep (react example_env Next example_step3) = Step4 \<and>
   street \<lparr>location = [], street = [], building = [], apartment = Some []\<rparr> = [] \<and>
   (''street'', js ''Street name is required'')
     \<in> set (reported_errors (child (react example_env Next
         (react example_env (Set_locationType Customer_location) example_step3)))) \<and>
   currentStep (react example_env Next
     (react example_env (Set_locationType Customer_location) example_step3)) = Step3 \<and>
   3 \<le> length (location example_address) \<and> 3 \<le> length (street example_address) \<and>
   1 \<le> length (building example_address) \<and>
   location' (formData (react example_env Next
     (run example_env [Set_locationType Customer_location, Type_location example_address]
        example_step3))) =
     Some \<lparr>locationType = Customer_location, ourLocation = None,
           customerLocation = Some example_address\<rparr>"
proof -
  let ?empty = "\<lparr>location = [], street = [], building = [], apartment = Some []\<rparr>"
  let ?c = "react example_env (Set_locationType Customer_location) example_step3"
  let ?a = "run example_env [Set_locationType Customer_location, Type_location example_address]
        example_step3"
  have c: "?c = example_step3\<lparr>child := MeetingLocation Customer_location ?empty []\<rparr>"
    by (simp add: set_locationType_event [OF example_step3_facts(2)])
  have a: "?a = example_step3\<lparr>child := MeetingLocation Customer_location example_address []\<rparr>"
    by (simp add: c type_location_event)
  have ok: "3 \<le> length (location example_address)" "3 \<le> length (street example_address)"
    "1 \<le> length (building example_address)"
    by (simp_all add: example_address_def js_def)
  from C8_location_step [of example_step3 ?empty "[]" example_env]
    C8_location_step [of ?c ?empty "[]" example_env]
    C8_location_step [of ?a example_address "[]" example_env]
    example_step3_facts c a ok
  show ?thesis by simp
qed

subsection \<open>C9: a late answer of the time-slot call\<close>

text \<open>
  Claim C9, on the hook as modelled from the spec. When the date-time step shows the day
  \<open>D1\<close> and the user clicks a day \<open>D2\<close> that is formatted differently, the selected date is
  \<open>D2\<close>, no slot has a button, and an answer to the request for \<open>D1\<close> that arrives now
  changes nothing: it does not populate the view of \<open>D2\<close>. In any state, an answer to a
  request other than the current one changes nothing, and no answer of the time-slot call
  ever changes the draft, the app context or what was posted.
\<close>

theorem C9_late_answer_discarded:
  "(child s = DateTimeSelection d l \<and> (\<not> isMobileView X \<or> \<not> expanded s) \<and>
    format_en_CA X d2 \<noteq> format_en_CA X (selectedDate (app s)) \<longrightarrow>
      selectedDate (app (react X (Day_click d2) s)) = d2 \<and>
      visible_slots (child (react X (Day_click d2) s)) = [] \<and>
      react X (Slots_loaded (slots_params X (app s)) m) (react X (Day_click d2) s) =
        react X (Day_click d2) s) \<and>
   (req \<noteq> slots_params X (app s) \<longrightarrow> react X (Slots_loaded req m) s = s) \<and>
   formData (react X (Slots_loaded req m) s) = formData s \<and>
   app (react X (Slots_loaded req m) s) = app s \<and>
   calls (react X (Slots_loaded req m) s) = calls s"
proof (intro conjI impI)
  assume h: "child s = DateTimeSelection d l \<and> (\<not> isMobileView X \<or> \<not> expanded s) \<and>
    format_en_CA X d2 \<noteq> format_en_CA X (selectedDate (app s))"
  then have p: "slots_params X (app (onDayClick d2 s)) \<noteq> slots_params X (app s)"
    by (simp add: slots_params_def onDayClick_def)
  from h have "react X (Day_click d2) s =
      (onDayClick d2 s)\<lparr>child :=
            useFrappeGetCall_refetch (slots_params X (app s))
              (slots_params X (app (onDayClick d2 s))) (DateTimeSelection d l)\<rparr>"
    by (simp add: day_click_event)
  with p have r: "react X (Day_click d2) s =
      (onDayClick d2 s)\<lparr>child := DateTimeSelection None True\<rparr>"
    by (simp add: useFrappeGetCall_refetch_def)
  show "selectedDate (app (react X (Day_click d2) s)) = d2"
    by (simp add: r onDayClick_def)
  show "visible_slots (child (react X (Day_click d2) s)) = []"
    by (simp add: r visible_slots_def)
  have "app ((onDayClick d2 s)\<lparr>child := DateTimeSelection None True\<rparr>) = app (onDayClick d2 s)"
    by simp
  with p show "react X (Slots_loaded (slots_params X (app s)) m) (react X (Day_click d2) s) =
        react X (Day_click d2) s"
    by (simp add: r slots_loaded_event useFrappeGetCall_answer_def)
next
  assume "req \<noteq> slots_params X (app s)"
  then show "react X (Slots_loaded req m) s = s"
    by (cases "child s") (simp_all add: slots_loaded_event useFrappeGetCall_answer_def)
qed (simp_all add: slots_loaded_event)

theorem C9_late_answer_discarded_witness:
  "child (run example_env [Next, Day_click 86400000] example_step3) =
     DateTimeSelection None True \<and>
   \<not> isMobileView example_env \<and>
   format_en_CA example_env 0 \<noteq> format_en_CA example_env 86400000 \<and>
   slots_params example_env (app (run example_env [Next, Day_click 86400000] example_step3)) =
     (js ''30-min'', js ''1970-01-02'', js ''240'') \<and>
   run example_env
     [Next, Day_click 86400000, Day_click 0,
      Slots_loaded (js ''30-min'', js ''1970-01-02'', js ''240'') example_slots]
     example_step3 =
   run example_env [Next, Day_click 86400000, Day_click 0] example_step3 \<and>
   visible_slots (child (run example_env [Next, Day_click 86400000, Day_click 0]
     example_step3)) = []"
proof -
  let ?s = "run example_env [Next, Day_click 86400000] example_step3"
  have f: "child ?s = DateTimeSelection None True"
    "\<not> isMobileView example_env"
    "selectedDate (app ?s) = 86400000"
    "slots_params example_env (app ?s) = (js ''30-min'', js ''1970-01-02'', js ''240'')"
    "format_en_CA example_env 0 \<noteq> format_en_CA example_env 86400000"
    by (simp_all add: example_step3_def example_step2_def example_step1_def model_defs
        example_defs)
  from C9_late_answer_discarded [of ?s None True example_env 0 example_slots] f
  show ?thesis by simp
qed

subsection \<open>C10: the location detail of a payload\<close>

text \<open>
  Claim C10. In every payload the wizard posts, in any run from its opening, exactly one
  of the two location details is defined and it is the one of the location type:
  \<open>our_location\<close> is defined and \<open>customer_location\<close> undefined when the type is our
  location, and the other way round when the type is the customer's location.
\<close>

theorem C10_one_location_detail:
  "\<forall>p \<in> set (calls (run X es (init ctx now))).
     (location_type p = Our_location \<longrightarrow>
        our_location p \<noteq> None \<and> customer_location p = None) \<and>
     (location_type p = Customer_location \<longrightarrow>
        customer_location p \<noteq> None \<and> our_location p = None)"
proof
  fix p
  assume "p \<in> set (calls (run X es (init ctx now)))"
  moreover have "posts_inv (run X es (init ctx now))"
    by (rule run_location_inv [OF init_location_inv])
  ultimately have "exactly_one_location_detail p"
    by (simp add: posts_inv_def list_all_iff)
  then show "(location_type p = Our_location \<longrightarrow>
        our_location p \<noteq> None \<and> customer_location p = None) \<and>
     (location_type p = Customer_location \<longrightarrow>
        customer_location p \<noteq> None \<and> our_location p = None)"
    by (simp add: exactly_one_location_detail_def split: location_type.splits)
qed

theorem C10_one_location_detail_witness:
  "length (calls (run example_env example_events (init example_ctx 0))) = 1 \<and>
   length (calls (run example_env example_events_customer (init example_ctx 0))) = 1 \<and>
   our_location (hd (calls (run example_env example_events (init example_ctx 0)))) =
     Some ourLocation_const \<and>
   customer_location (hd (calls (run example_env example_events (init example_ctx 0)))) =
     None \<and>
   our_location (hd (calls (run example_env example_events_customer (init example_ctx 0)))) =
     None \<and>
   customer_location
     (hd (calls (run example_env example_events_customer (init example_ctx 0)))) =
     Some (js ''location=Doha;street=Pearl;building=7;apartment=;'')"
  using C10_one_location_detail [of example_env example_events example_ctx 0]
    C10_one_location_detail [of example_env example_events_customer example_ctx 0]
  by (simp add: example_events_calls example_events_customer_calls)

end
